theory Spec2Isabelle
  imports Complex_Main
begin

section \<open>The IPC client of \<^verbatim>\<open>ipc/client.py\<close>\<close>

text \<open>
  The client is a Python object whose coroutines run on one asyncio event loop. The
  model is a record of its attributes; every coroutine is a function from the client
  (and the outcomes of the library calls it awaits) to its result, the client it leaves
  and the calls it made, in order. Attribute names are the source's without their
  leading underscore; the flags \<^verbatim>\<open>_is_connected\<close> and \<^verbatim>\<open>_is_connecting\<close> are
  \<open>flag_connected\<close> and \<open>flag_connecting\<close>, since the property \<^verbatim>\<open>is_connected\<close>
  has the plain name. Attributes that only build the handshake request (password,
  headers, URL) and the logger are left out.

  Other tasks run only while a coroutine is suspended at an \<^verbatim>\<open>await\<close>. The model
  lets them change the client where the source counts on it: at each sleep of the
  waiting loop of \<^verbatim>\<open>connect\<close>, at the guard of the coordinator, at each
  \<^verbatim>\<open>receive()\<close> of the listener and at the first write of \<^verbatim>\<open>send\<close>. Each of
  these is a function on clients, given with the environment of the call. At the other
  awaits the client is left alone.

  The cancellation of the calling task is a \<^verbatim>\<open>CancelledError\<close> raised at an await.
  It is an outcome of the handshake, of \<^verbatim>\<open>receive()\<close>, of each write, of each
  \<^verbatim>\<open>close()\<close>, of the wait for the listener task and of the sleeps of the waiting
  loop of \<^verbatim>\<open>connect\<close>; the backoff sleep of the coordinator and the stabilisation
  sleep of the retry run to their end.
\<close>

subsection \<open>Data\<close>

record ConnectionMetrics =
  connect_attempts :: int
  last_connect_time :: "real option"
  reconnect_count :: int
  message_count :: int
  last_heartbeat :: "real option"

text \<open>
  The handles the client owns. Of each library object only what the source reads is
  kept: \<^verbatim>\<open>closed\<close> of the socket, the session and the connector, \<^verbatim>\<open>cancelled()\<close>
  of the task. The number tells one socket from the next one.
\<close>

record websocket_handle =
  ws_id :: nat
  ws_closed :: bool

record session_handle =
  sess_closed :: bool

record connector_handle =
  conn_closed :: bool

record task_handle =
  task_cancelled :: bool

record client =
  host :: string
  port :: int
  heartbeat :: int
  flag_connected :: bool
  flag_connecting :: bool
  max_reconnect_attempts :: int
  reconnect_delay :: int
  session :: "session_handle option"
  websocket :: "websocket_handle option"
  task :: "task_handle option"
  connector :: "connector_handle option"
  metrics :: ConnectionMetrics

text \<open>\<^verbatim>\<open>__init__\<close>: no handle, both flags down, all counters at zero.\<close>

definition init :: "string \<Rightarrow> int \<Rightarrow> int \<Rightarrow> int \<Rightarrow> int \<Rightarrow> client" where
  "init h p hb max_attempts delay =
     \<lparr>host = h, port = p, heartbeat = hb,
      flag_connected = False, flag_connecting = False,
      max_reconnect_attempts = max_attempts, reconnect_delay = delay,
      session = None, websocket = None, task = None, connector = None,
      metrics = \<lparr>connect_attempts = 0, last_connect_time = None, reconnect_count = 0,
                 message_count = 0, last_heartbeat = None\<rparr>\<rparr>"

text \<open>Python values, as far as payloads and the value of an \<^verbatim>\<open>and\<close> chain need them.\<close>

datatype pyobj =
    PyNone
  | PyBool bool
  | PyInt int
  | PyStr string
  | PyList "pyobj list"
  | PyDict "(string \<times> pyobj) list"
  | PyMappingProxy "(string \<times> pyobj) list"

fun truthy :: "pyobj \<Rightarrow> bool" where
  "truthy PyNone = False"
| "truthy (PyBool b) = b"
| "truthy (PyInt i) = (i \<noteq> 0)"
| "truthy (PyStr s) = (s \<noteq> [])"
| "truthy (PyList xs) = (xs \<noteq> [])"
| "truthy (PyDict kvs) = (kvs \<noteq> [])"
| "truthy (PyMappingProxy kvs) = (kvs \<noteq> [])"

text \<open>\<^verbatim>\<open>isinstance(data, dict)\<close>; a read-only mapping proxy is a mapping but no dict.\<close>

fun isinstance_dict :: "pyobj \<Rightarrow> bool" where
  "isinstance_dict (PyDict kvs) = True"
| "isinstance_dict v = False"

fun is_mapping :: "pyobj \<Rightarrow> bool" where
  "is_mapping (PyDict kvs) = True"
| "is_mapping (PyMappingProxy kvs) = True"
| "is_mapping v = False"

text \<open>
  Exceptions that come out of an awaited aiohttp or asyncio call. \<^verbatim>\<open>CancelledError\<close>
  derives from \<^verbatim>\<open>BaseException\<close>, so \<^verbatim>\<open>except Exception\<close> lets it pass.
\<close>

datatype transport_exception =
    CancelledError
  | TimeoutError
  | ConnectionResetError
  | ClientConnectorError
  | WSServerHandshakeError int
  | ClientError
  | OtherException string

text \<open>
  What a coroutine of the client raises: the builtin \<^verbatim>\<open>ConnectionError\<close> that
  \<^verbatim>\<open>connect\<close> builds itself (its message is made of host and port), or an exception
  of the library passed on unchanged.
\<close>

datatype py_exception =
    ConnectionError string int
  | Propagated transport_exception

fun is_Exception :: "py_exception \<Rightarrow> bool" where
  "is_Exception (Propagated CancelledError) = False"
| "is_Exception e = True"

text \<open>
  How a call ends: it returns, it raises, or it is still suspended when the recorded
  behaviour of the other tasks ends.
\<close>

datatype 'a completion = Return 'a | Raise py_exception | Blocked

text \<open>
  The calls a coroutine makes on the library, in the order it makes them, and the frames
  the listener reads, each with the time of its arrival. \<open>SendJson\<close> names the socket
  written to, the payload, and the exception the write raised, if any.
\<close>

datatype effect =
    Sleep real
  | AcquireLock
  | CreateConnector
  | CreateSession
  | WsConnect
  | StartListener
  | Received real
  | Dispatch pyobj
  | ScheduleReconnection
  | SendJson nat pyobj "transport_exception option"
  | CancelTask
  | CloseWebsocket
  | CloseSession
  | CloseConnector

subsection \<open>The connectivity predicate\<close>

text \<open>
  The property returns the value of a Python \<^verbatim>\<open>and\<close> chain: its first falsy operand,
  else its last one. The operands are the flag, the socket (\<^verbatim>\<open>None\<close> or an object),
  \<^verbatim>\<open>not closed\<close>, the session and \<^verbatim>\<open>not closed\<close> again.
\<close>

definition is_connected :: "client \<Rightarrow> pyobj" where
  "is_connected c =
     (if \<not> flag_connected c then PyBool False
      else (case websocket c of
        None \<Rightarrow> PyNone
      | Some ws \<Rightarrow>
          (if ws_closed ws then PyBool False
           else (case session c of
             None \<Rightarrow> PyNone
           | Some s \<Rightarrow> PyBool (\<not> sess_closed s)))))"

subsection \<open>connect\<close>

text \<open>
  One \<^verbatim>\<open>await asyncio.sleep(0.1)\<close> of the waiting loop: what the other tasks did to
  the client meanwhile, and whether the sleep ended with the cancellation of the waiting
  call.
\<close>

record poll =
  elapsed :: "client \<Rightarrow> client"
  interrupted :: bool

text \<open>
  What \<^verbatim>\<open>connect\<close> meets while it runs: the sleeps of its waiting loop, the outcome
  of \<^verbatim>\<open>ws_connect\<close> (an exception or the new socket), and the clock.
\<close>

record connect_env =
  polls :: "poll list"
  handshake :: "transport_exception + websocket_handle"
  now :: real

text \<open>
  \<^verbatim>\<open>_create_session\<close>: a connector is built only when none is held; one that is held
  is used again, closed or not. The session is built on that connector, and a session
  reports itself closed when its connector is.
\<close>

definition create_session :: "client \<Rightarrow> session_handle \<times> client \<times> effect list" where
  "create_session c =
     (let (c1, tr) =
            (if connector c = None
             then (c\<lparr>connector := Some \<lparr>conn_closed = False\<rparr>\<rparr>, [CreateConnector])
             else (c, []))
      in (\<lparr>sess_closed = (case connector c1 of None \<Rightarrow> False | Some k \<Rightarrow> conn_closed k)\<rparr>,
          c1, tr @ [CreateSession]))"

text \<open>
  \<^verbatim>\<open>while self._is_connecting: await asyncio.sleep(0.1)\<close>, then \<^verbatim>\<open>return self\<close>.
  The loop stands before the \<^verbatim>\<open>try\<close> statement: a cancellation that ends a sleep
  leaves \<^verbatim>\<open>connect\<close> with the client as the other tasks have it.
\<close>

fun wait_connecting ::
  "client \<Rightarrow> poll list \<Rightarrow> unit completion \<times> client \<times> effect list" where
  "wait_connecting c [] =
     (if flag_connecting c then (Blocked, c, []) else (Return (), c, []))"
| "wait_connecting c (p # ps) =
     (if flag_connecting c
      then (if interrupted p
            then (Raise (Propagated CancelledError), elapsed p c, [Sleep 0.1])
            else (let (r, c', tr) = wait_connecting (elapsed p c) ps
                  in (r, c', Sleep 0.1 # tr)))
      else (Return (), c, []))"

definition connect :: "client \<Rightarrow> connect_env \<Rightarrow> unit completion \<times> client \<times> effect list" where
  "connect c env =
     (if flag_connecting c then wait_connecting c (polls env)
      else if flag_connected c then (Return (), c, [])
      else
        (let c1 = c\<lparr>flag_connecting := True,
                     metrics := (metrics c)\<lparr>connect_attempts := connect_attempts (metrics c) + 1\<rparr>\<rparr>;
             (c2, tr) =
               (if (case session c1 of None \<Rightarrow> True | Some s \<Rightarrow> sess_closed s)
                then (let (s, c', l) = create_session c1 in (c'\<lparr>session := Some s\<rparr>, l))
                else (c1, []))
         in (case handshake env of
               Inr ws \<Rightarrow>
                 (Return (),
                  c2\<lparr>websocket := Some ws,
                     task := Some \<lparr>task_cancelled = False\<rparr>,
                     flag_connected := True,
                     metrics := (metrics c2)\<lparr>last_connect_time := Some (now env)\<rparr>,
                     flag_connecting := False\<rparr>,
                  tr @ [WsConnect, StartListener])
             | Inl e \<Rightarrow>
                 (Raise (case e of
                           ClientConnectorError \<Rightarrow> ConnectionError (host c2) (port c2)
                         | _ \<Rightarrow> Propagated e),
                  c2\<lparr>flag_connecting := False\<rparr>,
                  tr @ [WsConnect]))))"

subsection \<open>The reconnection coordinator\<close>

text \<open>
  \<^verbatim>\<open>async with self._reconnect_lock\<close> suspends the call until the guard is free;
  \<open>lock_wait\<close> is what the other tasks (the holder of the guard among them) did to the
  client meanwhile. \<open>attempts\<close> gives, for each attempt number, what that attempt's
  \<^verbatim>\<open>connect\<close> meets.
\<close>

record reconnect_env =
  lock_wait :: "client \<Rightarrow> client"
  attempts :: "int \<Rightarrow> connect_env"

text \<open>The \<^verbatim>\<open>for attempt in range(1, max + 1)\<close> loop, over the list of attempt numbers.\<close>

fun reconnect_loop ::
  "client \<Rightarrow> (int \<Rightarrow> connect_env) \<Rightarrow> int list \<Rightarrow> unit completion \<times> client \<times> effect list" where
  "reconnect_loop c env [] = (Return (), c, [])"
| "reconnect_loop c env (attempt # rest) =
     (let delay = min (reconnect_delay c * 2 ^ nat (attempt - 1)) 60;
          (r, c', tr) = connect c (env attempt)
      in (case r of
            Return u \<Rightarrow>
              (if flag_connected c' then (Return (), c', Sleep (of_int delay) # tr)
               else (let (r2, c2, tr2) = reconnect_loop c' env rest
                     in (r2, c2, Sleep (of_int delay) # tr @ tr2)))
          | Raise e \<Rightarrow>
              (if is_Exception e
               then (let (r2, c2, tr2) = reconnect_loop c' env rest
                     in (r2, c2, Sleep (of_int delay) # tr @ tr2))
               else (Raise e, c', Sleep (of_int delay) # tr))
          | Blocked \<Rightarrow> (Blocked, c', Sleep (of_int delay) # tr)))"

definition attempt_reconnection ::
  "client \<Rightarrow> reconnect_env \<Rightarrow> unit completion \<times> client \<times> effect list" where
  "attempt_reconnection c env =
     (let c0 = lock_wait env c
      in if flag_connected c0 \<or> flag_connecting c0 then (Return (), c0, [AcquireLock])
         else (let c1 = c0\<lparr>metrics :=
                            (metrics c0)\<lparr>reconnect_count := reconnect_count (metrics c0) + 1\<rparr>\<rparr>;
                   (r, c2, tr) = reconnect_loop c1 (attempts env) [1..max_reconnect_attempts c1]
               in (r, c2, AcquireLock # tr)))"

text \<open>
  The guard admits one holder at a time, and a call suspended at the guard goes on when
  the holder leaves the block. So the bodies of calls made concurrently run one after
  another, in the order in which they get the guard: each starts from the client the
  one before it left (changed by \<open>lock_wait\<close>, if other tasks ran in between).
\<close>

fun guarded_invocations :: "client \<Rightarrow> reconnect_env list \<Rightarrow> client \<times> effect list" where
  "guarded_invocations c [] = (c, [])"
| "guarded_invocations c (env # envs) =
     (let (r, c1, tr1) = attempt_reconnection c env;
          (c2, tr2) = guarded_invocations c1 envs
      in (c2, tr1 @ tr2))"


text \<open>
  What a trace shows: the writes to a socket, the arrival times of the frames read, and
  the payloads handed to the message handler.
\<close>

fun arrivals :: "effect list \<Rightarrow> real list" where
  "arrivals [] = []"
| "arrivals (Received t # tr) = t # arrivals tr"
| "arrivals (x # tr) = arrivals tr"

fun dispatched :: "effect list \<Rightarrow> pyobj list" where
  "dispatched [] = []"
| "dispatched (Dispatch data # tr) = data # dispatched tr"
| "dispatched (x # tr) = dispatched tr"

fun transmissions :: "effect list \<Rightarrow> (nat \<times> pyobj \<times> transport_exception option) list" where
  "transmissions [] = []"
| "transmissions (SendJson n data out # tr) = (n, data, out) # transmissions tr"
| "transmissions (x # tr) = transmissions tr"

text \<open>The sleeps and the handshakes of a trace, in their order.\<close>

fun timing :: "effect list \<Rightarrow> effect list" where
  "timing [] = []"
| "timing (Sleep d # tr) = Sleep d # timing tr"
| "timing (WsConnect # tr) = WsConnect # timing tr"
| "timing (x # tr) = timing tr"

subsection \<open>The listener\<close>

datatype ws_msg_type =
  CONTINUATION | TEXT | BINARY | PING | PONG | CLOSE | CLOSING | CLOSED | ERROR

text \<open>A frame: its type, and what \<^verbatim>\<open>msg.json()\<close> gives (\<open>None\<close> when it raises).\<close>

record ws_message =
  msg_type :: ws_msg_type
  msg_json :: "pyobj option"

text \<open>
  One turn of the loop as the listener meets it: what the other tasks did to the client
  while \<^verbatim>\<open>receive()\<close> was awaited, what the await gave (a frame, or the exception
  raised in the listener), and the clock when it ended.
\<close>

record listen_step =
  meanwhile :: "client \<Rightarrow> client"
  received :: "transport_exception + ws_message"
  clock :: real

datatype exit_reason =
  StatusCleared | NoSocket | ErrorFrame | CloseFrame | TimeoutUnhealthy | Cancelled | UnexpectedError

text \<open>
  What a step brings: a frame or not, and the payload of a text frame that decodes.
\<close>

definition is_frame :: "listen_step \<Rightarrow> bool" where
  "is_frame s = (case received s of Inl e \<Rightarrow> False | Inr msg \<Rightarrow> True)"

definition decoded :: "listen_step \<Rightarrow> pyobj option" where
  "decoded s =
     (case received s of
        Inl e \<Rightarrow> None
      | Inr msg \<Rightarrow> (if msg_type msg = TEXT then msg_json msg else None))"

text \<open>
  The body of the loop, one \<^verbatim>\<open>try\<close> statement: it either leaves the loop, with a
  reason, or goes round again. The counter and the heartbeat stamp are written as soon
  as \<^verbatim>\<open>receive()\<close> has given a frame, before the type of the frame is looked at.
  Every exception but a timeout ends the loop; where the socket is gone the attribute
  access raises, which ends it too.
\<close>

datatype turn = Exit exit_reason client "effect list" | Continue client "effect list"

definition listen_body :: "client \<Rightarrow> listen_step \<Rightarrow> turn" where
  "listen_body c s =
     (if websocket c = None then Exit NoSocket c []
      else
        (let c1 = meanwhile s c
         in (case received s of
               Inl e \<Rightarrow>
                 (if e = TimeoutError
                  then (if \<not> truthy (is_connected c1) then Exit TimeoutUnhealthy c1 []
                        else Continue c1 [])
                  else if e = CancelledError then Exit Cancelled c1 []
                  else Exit UnexpectedError c1 [])
             | Inr msg \<Rightarrow>
                 (let c2 = c1\<lparr>metrics := (metrics c1)
                              \<lparr>message_count := message_count (metrics c1) + 1,
                               last_heartbeat := Some (clock s)\<rparr>\<rparr>
                  in if msg_type msg = TEXT
                     then (case msg_json msg of
                             Some data \<Rightarrow> Continue c2 [Received (clock s), Dispatch data]
                           | None \<Rightarrow> Continue c2 [Received (clock s)])
                     else if msg_type msg = ERROR then Exit ErrorFrame c2 [Received (clock s)]
                     else if msg_type msg = CLOSE \<or> msg_type msg = CLOSED
                     then Exit CloseFrame c2 [Received (clock s)]
                     else Continue c2 [Received (clock s)]))))"

definition turn_client :: "turn \<Rightarrow> client" where
  "turn_client t = (case t of Exit r c tr \<Rightarrow> c | Continue c tr \<Rightarrow> c)"

definition turn_trace :: "turn \<Rightarrow> effect list" where
  "turn_trace t = (case t of Exit r c tr \<Rightarrow> tr | Continue c tr \<Rightarrow> tr)"

text \<open>
  The \<^verbatim>\<open>while self._is_connected\<close> loop. The result is the reason of the exit, or
  \<open>None\<close> while the loop is still waiting for a frame at the end of the recorded steps.
\<close>

fun listen_loop ::
  "client \<Rightarrow> listen_step list \<Rightarrow> exit_reason option \<times> client \<times> effect list" where
  "listen_loop c [] =
     (if \<not> flag_connected c then (Some StatusCleared, c, []) else (None, c, []))"
| "listen_loop c (s # ss) =
     (if \<not> flag_connected c then (Some StatusCleared, c, [])
      else (case listen_body c s of
              Exit reason c1 tr \<Rightarrow> (Some reason, c1, tr)
            | Continue c1 tr \<Rightarrow>
                (let (r, c2, tr2) = listen_loop c1 ss in (r, c2, tr @ tr2))))"

text \<open>\<^verbatim>\<open>_listen\<close>: the loop, then the check that schedules the reconnection.\<close>

definition listen ::
  "client \<Rightarrow> listen_step list \<Rightarrow> exit_reason option \<times> client \<times> effect list" where
  "listen c steps =
     (let (reason, c1, tr) = listen_loop c steps
      in if reason = None then (None, c1, tr)
         else if flag_connected c1
         then (reason, c1\<lparr>flag_connected := False\<rparr>, tr @ [ScheduleReconnection])
         else (reason, c1, tr))"

subsection \<open>send\<close>

text \<open>
  \<^verbatim>\<open>await self._websocket.send_json(data)\<close>: the write goes to the socket the client
  holds; \<open>outcome\<close> is the exception the write raises, if any. With no socket the
  attribute access itself raises.
\<close>

definition send_json ::
  "client \<Rightarrow> pyobj \<Rightarrow> transport_exception option \<Rightarrow> transport_exception option \<times> effect list" where
  "send_json c data outcome =
     (case websocket c of
        None \<Rightarrow> (Some (OtherException ''AttributeError''), [])
      | Some ws \<Rightarrow> (outcome, [SendJson (ws_id ws) data outcome]))"

text \<open>
  What one turn of the retry loop meets: the coordinator's environment and the outcome
  of the write that follows.
\<close>

record retry_env =
  reconnect :: reconnect_env
  resend :: "transport_exception option"

text \<open>The \<^verbatim>\<open>for retry in range(max_retries)\<close> loop of \<^verbatim>\<open>_handle_reconnect_and_retry\<close>.\<close>

fun retry_loop ::
  "client \<Rightarrow> pyobj \<Rightarrow> (int \<Rightarrow> retry_env) \<Rightarrow> int list \<Rightarrow> bool completion \<times> client \<times> effect list" where
  "retry_loop c data env [] = (Return False, c, [])"
| "retry_loop c data env (retry # rest) =
     (let (r, c1, tr1) = attempt_reconnection c (reconnect (env retry))
      in (case r of
            Blocked \<Rightarrow> (Blocked, c1, tr1)
          | Raise e \<Rightarrow>
              (if is_Exception e
               then (let (r2, c2, tr2) = retry_loop c1 data env rest in (r2, c2, tr1 @ tr2))
               else (Raise e, c1, tr1))
          | Return u \<Rightarrow>
              (if truthy (is_connected c1)
               then (let (out, tr2) = send_json c1 data (resend (env retry))
                     in (case out of
                           None \<Rightarrow> (Return True, c1, tr1 @ Sleep 0.5 # tr2)
                         | Some e \<Rightarrow>
                             (if e = CancelledError
                              then (Raise (Propagated e), c1, tr1 @ Sleep 0.5 # tr2)
                              else (let (r3, c3, tr3) = retry_loop c1 data env rest
                                    in (r3, c3, tr1 @ Sleep 0.5 # tr2 @ tr3)))))
               else (let (r2, c2, tr2) = retry_loop c1 data env rest
                     in (r2, c2, tr1 @ tr2)))))"

definition handle_reconnect_and_retry ::
  "client \<Rightarrow> pyobj \<Rightarrow> (int \<Rightarrow> retry_env) \<Rightarrow> int \<Rightarrow> bool completion \<times> client \<times> effect list" where
  "handle_reconnect_and_retry c data env max_retries =
     retry_loop c data env [0..max_retries - 1]"

text \<open>
  What one turn adds to the trace once the coordinator has returned: nothing while the
  connectivity predicate is false, else the stabilisation sleep and the write.
\<close>

definition retransmit :: "client \<Rightarrow> pyobj \<Rightarrow> transport_exception option \<Rightarrow> effect list" where
  "retransmit c data outcome =
     (if truthy (is_connected c) then Sleep 0.5 # snd (send_json c data outcome) else [])"

text \<open>
  What \<^verbatim>\<open>send\<close> meets: the outcome of its own write, what the other tasks did to the
  client while that write was awaited, and the environment of each retry.
\<close>

record send_env =
  first_send :: "transport_exception option"
  during_send :: "client \<Rightarrow> client"
  retries :: "int \<Rightarrow> retry_env"

definition send :: "client \<Rightarrow> pyobj \<Rightarrow> send_env \<Rightarrow> bool completion \<times> client \<times> effect list" where
  "send c data env =
     (if \<not> isinstance_dict data then (Return False, c, [])
      else if \<not> truthy (is_connected c) then (Return False, c, [])
      else
        (let (out, tr) = send_json c data (first_send env);
             c1 = during_send env c
         in (case out of
               None \<Rightarrow> (Return True, c1, tr)
             | Some e \<Rightarrow>
                 (if e = ConnectionResetError
                  then (let (r, c2, tr2) = handle_reconnect_and_retry c1 data (retries env) 2
                        in (r, c2, tr @ tr2))
                  else if e = CancelledError then (Raise (Propagated e), c1, tr)
                  else (Return False, c1, tr)))))"

subsection \<open>disconnect\<close>

text \<open>
  What \<^verbatim>\<open>disconnect\<close> meets: the exception, if any, out of the bounded wait for the
  cancelled task and out of each \<^verbatim>\<open>close()\<close>, and whether closing the session also
  closed the connector the session was built on.
\<close>

record disconnect_env =
  task_wait :: "transport_exception option"
  ws_close :: "transport_exception option"
  session_close :: "transport_exception option"
  session_close_shuts_connector :: bool
  connector_close :: "transport_exception option"

text \<open>
  The conditions of the four blocks of \<^verbatim>\<open>disconnect\<close>:
  \<^verbatim>\<open>self._task and not self._task.cancelled()\<close>, and for the socket, the session and
  the connector \<^verbatim>\<open>self._x and not self._x.closed\<close>.
\<close>

definition task_pending :: "client \<Rightarrow> bool" where
  "task_pending c = (case task c of None \<Rightarrow> False | Some t \<Rightarrow> \<not> task_cancelled t)"

definition websocket_open :: "client \<Rightarrow> bool" where
  "websocket_open c = (case websocket c of None \<Rightarrow> False | Some w \<Rightarrow> \<not> ws_closed w)"

definition session_open :: "client \<Rightarrow> bool" where
  "session_open c = (case session c of None \<Rightarrow> False | Some s \<Rightarrow> \<not> sess_closed s)"

definition connector_open :: "client \<Rightarrow> bool" where
  "connector_open c = (case connector c of None \<Rightarrow> False | Some k \<Rightarrow> \<not> conn_closed k)"

text \<open>
  The four blocks. Each gives the exception that leaves the block, if one does. The wait
  for the task lets \<^verbatim>\<open>CancelledError\<close> and \<^verbatim>\<open>TimeoutError\<close> pass and nothing
  else; the three \<^verbatim>\<open>close()\<close> calls are under \<^verbatim>\<open>except Exception\<close>. The handle
  is dropped after the \<^verbatim>\<open>try\<close> statement, so it stays when an exception leaves it.
\<close>

definition cancel_listener ::
  "client \<Rightarrow> transport_exception option \<Rightarrow> py_exception option \<times> client \<times> effect list" where
  "cancel_listener c outcome =
     (if task_pending c
      then (case outcome of
              None \<Rightarrow> (None, c\<lparr>task := None\<rparr>, [CancelTask])
            | Some e \<Rightarrow>
                (if e = CancelledError \<or> e = TimeoutError
                 then (None, c\<lparr>task := None\<rparr>, [CancelTask])
                 else (Some (Propagated e), c, [CancelTask])))
      else (None, c, []))"

definition close_websocket ::
  "client \<Rightarrow> transport_exception option \<Rightarrow> py_exception option \<times> client \<times> effect list" where
  "close_websocket c outcome =
     (if websocket_open c
      then (case outcome of
              None \<Rightarrow> (None, c\<lparr>websocket := None\<rparr>, [CloseWebsocket])
            | Some e \<Rightarrow>
                (if is_Exception (Propagated e)
                 then (None, c\<lparr>websocket := None\<rparr>, [CloseWebsocket])
                 else (Some (Propagated e), c, [CloseWebsocket])))
      else (None, c, []))"

definition close_session ::
  "client \<Rightarrow> transport_exception option \<Rightarrow> bool \<Rightarrow> py_exception option \<times> client \<times> effect list" where
  "close_session c outcome shuts =
     (if session_open c
      then
        (let c1 = (if shuts
                   then c\<lparr>connector := map_option (\<lambda>k. k\<lparr>conn_closed := True\<rparr>) (connector c)\<rparr>
                   else c)
         in (case outcome of
               None \<Rightarrow> (None, c1\<lparr>session := None\<rparr>, [CloseSession])
             | Some e \<Rightarrow>
                 (if is_Exception (Propagated e)
                  then (None, c1\<lparr>session := None\<rparr>, [CloseSession])
                  else (Some (Propagated e), c1, [CloseSession]))))
      else (None, c, []))"

definition close_connector ::
  "client \<Rightarrow> transport_exception option \<Rightarrow> py_exception option \<times> client \<times> effect list" where
  "close_connector c outcome =
     (if connector_open c
      then (case outcome of
              None \<Rightarrow> (None, c\<lparr>connector := None\<rparr>, [CloseConnector])
            | Some e \<Rightarrow>
                (if is_Exception (Propagated e)
                 then (None, c\<lparr>connector := None\<rparr>, [CloseConnector])
                 else (Some (Propagated e), c, [CloseConnector])))
      else (None, c, []))"

definition disconnect ::
  "client \<Rightarrow> disconnect_env \<Rightarrow> unit completion \<times> client \<times> effect list" where
  "disconnect c env =
     (let c0 = c\<lparr>flag_connected := False\<rparr>;
          (e1, c1, tr1) = cancel_listener c0 (task_wait env)
      in (case e1 of
            Some e \<Rightarrow> (Raise e, c1, tr1)
          | None \<Rightarrow>
              (let (e2, c2, tr2) = close_websocket c1 (ws_close env)
               in (case e2 of
                     Some e \<Rightarrow> (Raise e, c2, tr1 @ tr2)
                   | None \<Rightarrow>
                       (let (e3, c3, tr3) =
                              close_session c2 (session_close env) (session_close_shuts_connector env)
                        in (case e3 of
                              Some e \<Rightarrow> (Raise e, c3, tr1 @ tr2 @ tr3)
                            | None \<Rightarrow>
                                (let (e4, c4, tr4) = close_connector c3 (connector_close env)
                                 in (case e4 of
                                       Some e \<Rightarrow> (Raise e, c4, tr1 @ tr2 @ tr3 @ tr4)
                                     | None \<Rightarrow> (Return (), c4, tr1 @ tr2 @ tr3 @ tr4)))))))))"

subsection \<open>Environments of concrete runs\<close>

text \<open>
  A handshake that cannot reach the endpoint, one that the server rejects with a status,
  one that succeeds with socket \<open>n\<close> at time \<open>t\<close>; and a coordinator that gets the
  guard at once and meets the same handshake at every attempt.
\<close>

definition unreachable :: connect_env where
  "unreachable = \<lparr>polls = [], handshake = Inl ClientConnectorError, now = 0\<rparr>"

definition rejected :: "int \<Rightarrow> connect_env" where
  "rejected status = \<lparr>polls = [], handshake = Inl (WSServerHandshakeError status), now = 0\<rparr>"

definition accepted :: "nat \<Rightarrow> real \<Rightarrow> connect_env" where
  "accepted n t = \<lparr>polls = [], handshake = Inr \<lparr>ws_id = n, ws_closed = False\<rparr>, now = t\<rparr>"

text \<open>
  The client while a first \<^verbatim>\<open>connect\<close> awaits its handshake (lines 243 to 254 have
  run), the client after that \<^verbatim>\<open>connect\<close> has succeeded, and a step in which no other
  task runs.
\<close>

definition connecting :: client where
  "connecting =
     (init ''localhost'' 8000 30 5 5)
       \<lparr>flag_connecting := True,
        session := Some \<lparr>sess_closed = False\<rparr>,
        connector := Some \<lparr>conn_closed = False\<rparr>,
        metrics := (metrics (init ''localhost'' 8000 30 5 5))\<lparr>connect_attempts := 1\<rparr>\<rparr>"

definition online :: client where
  "online = fst (snd (connect (init ''localhost'' 8000 30 5 5) (accepted 1 0)))"

text \<open>A call of \<^verbatim>\<open>connect\<close> whose waiting loop sleeps once, as \<open>p\<close> says.\<close>

definition waiting :: "poll \<Rightarrow> connect_env" where
  "waiting p = \<lparr>polls = [p], handshake = Inl ClientConnectorError, now = 0\<rparr>"

definition quiet :: "transport_exception + ws_message \<Rightarrow> real \<Rightarrow> listen_step" where
  "quiet x t = \<lparr>meanwhile = (\<lambda>c. c), received = x, clock = t\<rparr>"

text \<open>Three frames: a text frame that decodes, one that does not, and a pong.\<close>

definition frames3 :: "listen_step list" where
  "frames3 = [quiet (Inr \<lparr>msg_type = TEXT, msg_json = Some (PyDict [])\<rparr>) 3,
          quiet (Inr \<lparr>msg_type = TEXT, msg_json = None\<rparr>) 4,
          quiet (Inr \<lparr>msg_type = PONG, msg_json = None\<rparr>) 6]"

text \<open>
  A \<^verbatim>\<open>disconnect\<close> in which the wait for the task ends as \<open>w\<close> says and each of
  the three \<^verbatim>\<open>close()\<close> calls as \<open>x\<close> says.
\<close>

definition faults ::
  "transport_exception option \<Rightarrow> transport_exception option \<Rightarrow> disconnect_env" where
  "faults w x = \<lparr>task_wait = w, ws_close = x, session_close = x,
                 session_close_shuts_connector = False, connector_close = x\<rparr>"

definition always :: "connect_env \<Rightarrow> reconnect_env" where
  "always e = \<lparr>lock_wait = (\<lambda>c. c), attempts = (\<lambda>n. e)\<rparr>"

text \<open>
  A \<^verbatim>\<open>send\<close> whose write meets a connection reset, while the listener takes the
  status flag down; each coordinator call then meets a handshake that gives socket 2,
  and each later write ends as \<open>out\<close> says.
\<close>

definition reset_then :: "transport_exception option \<Rightarrow> send_env" where
  "reset_then out =
     \<lparr>first_send = Some ConnectionResetError,
      during_send = (\<lambda>c. c\<lparr>flag_connected := False\<rparr>),
      retries = (\<lambda>i. \<lparr>reconnect = always (accepted 2 5), resend = out\<rparr>)\<rparr>"

section \<open>Theorems\<close>

subsection \<open>The connectivity predicate\<close>

text \<open>
  C1. \<^verbatim>\<open>is_connected\<close> is \<^verbatim>\<open>True\<close> exactly when the status flag is set, the
  websocket handle exists and is not closed, and the session handle exists and is not
  closed; in every other state its value is \<^verbatim>\<open>False\<close> or \<^verbatim>\<open>None\<close>, which is
  not true.
\<close>

theorem is_connected_iff:
  "(is_connected c = PyBool True) =
     (flag_connected c
      \<and> (\<exists>ws. websocket c = Some ws \<and> \<not> ws_closed ws)
      \<and> (\<exists>s. session c = Some s \<and> \<not> sess_closed s))
   \<and> (truthy (is_connected c) = (is_connected c = PyBool True))"
  by (auto simp: is_connected_def split: option.splits)

text \<open>The client after a first successful \<^verbatim>\<open>connect\<close>, field by field.\<close>

lemma online_eq: "online = (init ''localhost'' 8000 30 5 5)
   \<lparr>flag_connected := True, session := Some \<lparr>sess_closed = False\<rparr>,
    websocket := Some \<lparr>ws_id = 1, ws_closed = False\<rparr>,
    task := Some \<lparr>task_cancelled = False\<rparr>,
    connector := Some \<lparr>conn_closed = False\<rparr>,
    metrics := \<lparr>connect_attempts = 1, last_connect_time = Some 0, reconnect_count = 0,
                 message_count = 0, last_heartbeat = None\<rparr>\<rparr>"
  by (simp add: online_def connect_def create_session_def init_def accepted_def)

subsection \<open>connect\<close>

text \<open>
  The waiting loop writes nothing to the client: what it leaves is what the other tasks
  made of it during the sleeps that ran. It returns only with the Connecting flag down,
  and it raises only the cancellation that ended a sleep.
\<close>

lemma wait_connecting_result:
  "wait_connecting c ps = (r, c', tr) \<Longrightarrow>
     (r = Return () \<longrightarrow> \<not> flag_connecting c')
     \<and> (\<forall>e. r = Raise e \<longrightarrow> e = Propagated CancelledError \<and> tr \<noteq> [])
     \<and> c' = fold elapsed (take (length tr) ps) c
     \<and> tr = replicate (length tr) (Sleep 0.1)"
  by (induction ps arbitrary: c r c' tr) (auto split: if_splits prod.splits)

text \<open>A call that finds both flags down runs the handshake once and never waits.\<close>

lemma connect_main:
  assumes "\<not> flag_connecting c" "\<not> flag_connected c" "connect c env = (r, c', tr)"
  shows "r \<noteq> Blocked" "\<not> flag_connecting c'" "reconnect_delay c' = reconnect_delay c"
    "timing tr = [WsConnect]"
    "\<And>e. r = Raise e \<Longrightarrow> \<not> flag_connected c'"
  using assms
  by (auto simp: connect_def create_session_def Let_def
      split: if_splits sum.splits option.splits prod.splits)

text \<open>
  C8, as the code has it. A call of \<^verbatim>\<open>connect\<close> that finds no attempt in flight comes
  to its end, and whether it returns or raises the Connecting flag is down then; when
  it raises, the status flag is down too, so the connectivity predicate is false. A call
  that finds an attempt in flight only waits: it writes nothing to the client, it
  returns only once the Connecting flag is down, and it raises only when it is cancelled
  during a sleep, leaving the flags as the other tasks have them.
\<close>

theorem connect_cleanup:
  assumes "connect c env = (r, c', tr)"
  shows "(\<not> flag_connecting c \<longrightarrow>
            r \<noteq> Blocked \<and> \<not> flag_connecting c'
            \<and> (\<forall>e. r = Raise e \<longrightarrow> \<not> flag_connected c' \<and> \<not> truthy (is_connected c')))
       \<and> (flag_connecting c \<longrightarrow>
            (r = Return () \<longrightarrow> \<not> flag_connecting c')
            \<and> (\<forall>e. r = Raise e \<longrightarrow> e = Propagated CancelledError \<and> tr \<noteq> [])
            \<and> c' = fold elapsed (take (length tr) (polls env)) c
            \<and> tr = replicate (length tr) (Sleep 0.1))"
proof (cases "flag_connecting c")
  case True
  then have "wait_connecting c (polls env) = (r, c', tr)"
    using assms by (simp add: connect_def)
  from wait_connecting_result[OF this] True show ?thesis by blast
next
  case False
  then show ?thesis using assms
    by (auto simp: connect_def create_session_def Let_def is_connected_def
        split: if_splits sum.splits option.splits prod.splits)
qed

theorem connect_cleanup_witness:
  "(\<exists>c' tr. connect (init ''localhost'' 8000 30 5 5) unreachable
             = (Raise (ConnectionError ''localhost'' 8000), c', tr)
       \<and> \<not> flag_connecting c' \<and> \<not> flag_connected c' \<and> \<not> truthy (is_connected c'))
   \<and> connect connecting (waiting \<lparr>elapsed = (\<lambda>c. online), interrupted = False\<rparr>)
       = (Return (), online, [Sleep 0.1])"
proof -
  obtain c' tr where e: "connect (init ''localhost'' 8000 30 5 5) unreachable
             = (Raise (ConnectionError ''localhost'' 8000), c', tr)"
    by (simp add: connect_def create_session_def init_def unreachable_def)
  have f: "\<not> flag_connecting (init ''localhost'' 8000 30 5 5)" by (simp add: init_def)
  have w: "connect connecting (waiting \<lparr>elapsed = (\<lambda>c. online), interrupted = False\<rparr>)
       = (Return (), online, [Sleep 0.1])"
    by (simp add: connect_def connecting_def waiting_def online_eq init_def)
  from connect_cleanup[OF e] connect_cleanup[OF w] e f w show ?thesis by blast
qed

text \<open>
  A second call waits for the attempt in flight and is cancelled during its sleep. If
  the attempt is still in flight, the call raises with the Connecting flag up; if the
  attempt has succeeded meanwhile, the call raises with the client connected.
\<close>

theorem cancelled_waiter_counterexample:
  "connect connecting (waiting \<lparr>elapsed = (\<lambda>c. c), interrupted = True\<rparr>)
     = (Raise (Propagated CancelledError), connecting, [Sleep 0.1])
   \<and> flag_connecting connecting
   \<and> connect connecting (waiting \<lparr>elapsed = (\<lambda>c. online), interrupted = True\<rparr>)
     = (Raise (Propagated CancelledError), online, [Sleep 0.1])
   \<and> flag_connected online \<and> truthy (is_connected online)"
  by (simp add: connect_def connecting_def waiting_def online_eq init_def is_connected_def)

text \<open>
  C4. A handshake that fails makes \<^verbatim>\<open>connect\<close> raise, and the exception tells the
  failure: \<^verbatim>\<open>ConnectionError\<close> for an unreachable endpoint, the handshake error
  with status 401 for a rejected credential, the handshake error with status 403 for a
  forbidden client, and any other exception as it came. Two failures raise the same
  exception only when they are the same failure.
\<close>

theorem connect_failures_distinct:
  assumes "\<not> flag_connecting c" and "\<not> flag_connected c"
    and "handshake env = Inl e" and "handshake env' = Inl e'"
  shows "(e = ClientConnectorError \<longrightarrow>
            fst (connect c env) = Raise (ConnectionError (host c) (port c)))
       \<and> (e = WSServerHandshakeError 401 \<longrightarrow>
            fst (connect c env) = Raise (Propagated (WSServerHandshakeError 401)))
       \<and> (e = WSServerHandshakeError 403 \<longrightarrow>
            fst (connect c env) = Raise (Propagated (WSServerHandshakeError 403)))
       \<and> (e \<noteq> ClientConnectorError \<longrightarrow> fst (connect c env) = Raise (Propagated e))
       \<and> ((fst (connect c env) = fst (connect c env')) = (e = e'))"
  using assms
  by (auto simp: connect_def create_session_def Let_def split: transport_exception.splits)

theorem connect_failures_distinct_witness:
  "fst (connect (init ''localhost'' 8000 30 5 5) (rejected 401))
     = Raise (Propagated (WSServerHandshakeError 401))
   \<and> fst (connect (init ''localhost'' 8000 30 5 5) (rejected 403))
     = Raise (Propagated (WSServerHandshakeError 403))
   \<and> fst (connect (init ''localhost'' 8000 30 5 5) (rejected 401))
     \<noteq> fst (connect (init ''localhost'' 8000 30 5 5) (rejected 403))"
  using connect_failures_distinct[of "init ''localhost'' 8000 30 5 5" "rejected 401"
      "WSServerHandshakeError 401" "rejected 403" "WSServerHandshakeError 403"]
    connect_failures_distinct[of "init ''localhost'' 8000 30 5 5" "rejected 403"
      "WSServerHandshakeError 403" "rejected 401" "WSServerHandshakeError 401"]
  by (simp add: init_def rejected_def)

subsection \<open>The reconnection coordinator\<close>

lemma timing_append: "timing (xs @ ys) = timing xs @ timing ys"
  by (induction xs rule: timing.induct) auto

lemma count_timing: "count_list (timing tr) WsConnect = count_list tr WsConnect"
  by (induction tr rule: timing.induct) auto

lemma upto_1_5: "[1..5] = [1, 2, 3, 4, 5::int]"
  by (simp add: upto.simps[of 1])

text \<open>
  Each turn of the loop sleeps and then attempts the handshake, and the sleep before the
  attempt numbered \<open>n\<close> is the capped power of two.
\<close>

lemma reconnect_loop_timing:
  assumes "\<not> flag_connecting c" "\<not> flag_connected c" "reconnect_loop c env ns = (r, c', tr)"
  shows "count_list tr WsConnect \<le> length ns
       \<and> timing tr
           = concat (map (\<lambda>n. [Sleep (real_of_int (min (reconnect_delay c * 2 ^ nat (n - 1)) 60)),
                                WsConnect])
                      (take (count_list tr WsConnect) ns))
       \<and> reconnect_delay c' = reconnect_delay c"
  using assms
proof (induction ns arbitrary: c r c' tr)
  case Nil
  then show ?case by simp
next
  case (Cons n ns)
  obtain r1 c1 tr1 where c: "connect c (env n) = (r1, c1, tr1)"
    by (cases "connect c (env n)") auto
  note m = connect_main[OF Cons.prems(1,2) c]
  have k: "count_list tr1 WsConnect = 1"
    using count_timing[of tr1] m(4) by simp
  show ?case
  proof (cases "(\<exists>u. r1 = Return u \<and> flag_connected c1) \<or> (\<exists>e. r1 = Raise e \<and> \<not> is_Exception e)")
    case True
    then show ?thesis using Cons.prems(3) c m k
      by (auto simp: Let_def timing_append split: completion.splits)
  next
    case False
    obtain r2 c2 tr2 where l: "reconnect_loop c1 env ns = (r2, c2, tr2)"
      by (cases "reconnect_loop c1 env ns") auto
    have nc: "\<not> flag_connected c1" using False m by (cases r1) auto
    have eq: "r = r2" "c' = c2"
      "tr = Sleep (real_of_int (min (reconnect_delay c * 2 ^ nat (n - 1)) 60)) # tr1 @ tr2"
      using Cons.prems(3) c l False m
      by (auto simp: Let_def split: completion.splits if_splits)
    from Cons.IH[OF m(2) nc l] m k eq show ?thesis
      by (simp add: timing_append)
  qed
qed

text \<open>
  C3. In every run of the coordinator, the sleeps and the handshakes alternate, a sleep
  first: before the attempt numbered \<open>n\<close> the coordinator sleeps
  \<open>min (reconnect_delay * 2 ^ (n - 1)) 60\<close>, for \<open>n = 1, \<dots>, k\<close>, where \<open>k\<close>, the
  number of handshakes attempted, is at most the attempt budget. With a delay of 5 and
  five failing attempts the sleeps before the attempts are 5, 10, 20, 40 and 60: the cap
  binds at the fifth attempt first.
\<close>

theorem backoff_delays:
  assumes "attempt_reconnection c env = (r, c', tr)"
  shows "count_list tr WsConnect \<le> nat (max_reconnect_attempts (lock_wait env c))
       \<and> timing tr
           = concat (map (\<lambda>n. [Sleep (real_of_int (min (reconnect_delay c' * 2 ^ nat (n - 1)) 60)),
                                WsConnect])
                      (take (count_list tr WsConnect)
                         [1..max_reconnect_attempts (lock_wait env c)]))"
proof (cases "flag_connected (lock_wait env c) \<or> flag_connecting (lock_wait env c)")
  case True
  then show ?thesis using assms by (auto simp: attempt_reconnection_def)
next
  case False
  define c1 where "c1 = (lock_wait env c)\<lparr>metrics := (metrics (lock_wait env c))
       \<lparr>reconnect_count := reconnect_count (metrics (lock_wait env c)) + 1\<rparr>\<rparr>"
  obtain r2 c2 tr2
    where l: "reconnect_loop c1 (attempts env) [1..max_reconnect_attempts c1] = (r2, c2, tr2)"
    by (cases "reconnect_loop c1 (attempts env) [1..max_reconnect_attempts c1]") auto
  have f: "\<not> flag_connecting c1" "\<not> flag_connected c1" using False by (simp_all add: c1_def)
  have eq: "c' = c2" "tr = AcquireLock # tr2"
    using assms False l by (auto simp: attempt_reconnection_def Let_def c1_def[symmetric])
  from reconnect_loop_timing[OF f l] eq show ?thesis
    by (simp add: c1_def)
qed

theorem backoff_delays_witness:
  "\<exists>r c' tr. attempt_reconnection (init ''localhost'' 8000 30 5 5) (always unreachable)
               = (r, c', tr)
     \<and> timing tr = [Sleep 5, WsConnect, Sleep 10, WsConnect, Sleep 20, WsConnect,
                     Sleep 40, WsConnect, Sleep 60, WsConnect]"
proof -
  obtain r c' tr
    where e: "attempt_reconnection (init ''localhost'' 8000 30 5 5) (always unreachable)
               = (r, c', tr)"
    by (cases "attempt_reconnection (init ''localhost'' 8000 30 5 5) (always unreachable)") auto
  have v: "count_list tr WsConnect = 5" "reconnect_delay c' = 5"
    using e by (auto simp: attempt_reconnection_def connect_def create_session_def init_def
        Let_def upto_1_5 always_def unreachable_def)
  from backoff_delays[OF e] v
  have "timing tr = [Sleep 5, WsConnect, Sleep 10, WsConnect, Sleep 20, WsConnect,
                     Sleep 40, WsConnect, Sleep 60, WsConnect]"
    by (simp add: init_def upto_1_5 always_def)
  with e show ?thesis by blast
qed

lemma attempt_reconnection_noop:
  "flag_connected (lock_wait env c) \<or> flag_connecting (lock_wait env c) \<Longrightarrow>
     attempt_reconnection c env = (Return (), lock_wait env c, [AcquireLock])"
  by (simp add: attempt_reconnection_def)

lemma guarded_invocations_connected:
  "flag_connected c \<Longrightarrow>
   \<forall>e \<in> set envs. \<forall>s. flag_connected s \<longrightarrow> flag_connected (lock_wait e s) \<Longrightarrow>
   guarded_invocations c envs = (fold lock_wait envs c, replicate (length envs) AcquireLock)"
  by (induction envs arbitrary: c) (simp_all add: attempt_reconnection_noop)

text \<open>
  C5, as the code has it. Calls of the coordinator are serialised by the guard. A call
  that holds the guard and finds the client connected or connecting returns at once:
  it leaves the client as it found it, counts no cycle, sleeps and connects not at all.
  So when one call's cycle ends connected and the client stays connected, the calls
  behind it at the guard add nothing: the \<open>N\<close> calls make one cycle.
\<close>

theorem one_cycle_when_connected:
  "(flag_connected (lock_wait env c) \<or> flag_connecting (lock_wait env c) \<longrightarrow>
      attempt_reconnection c env = (Return (), lock_wait env c, [AcquireLock]))
   \<and> (attempt_reconnection c env = (r, c1, tr1) \<and> flag_connected c1
       \<and> (\<forall>e \<in> set envs. \<forall>s. flag_connected s \<longrightarrow> flag_connected (lock_wait e s)) \<longrightarrow>
      guarded_invocations c (env # envs)
        = (fold lock_wait envs c1, tr1 @ replicate (length envs) AcquireLock))"
  by (auto simp: attempt_reconnection_noop guarded_invocations_connected)

theorem one_cycle_when_connected_witness:
  "\<exists>c' tr. guarded_invocations (init ''localhost'' 8000 30 5 5)
               [always (accepted 1 7), always unreachable] = (c', tr)
     \<and> reconnect_count (metrics c') = 1 \<and> count_list tr WsConnect = 1"
proof -
  obtain r c1 tr1
    where e: "attempt_reconnection (init ''localhost'' 8000 30 5 5) (always (accepted 1 7))
               = (r, c1, tr1)"
    by (cases "attempt_reconnection (init ''localhost'' 8000 30 5 5) (always (accepted 1 7))")
      auto
  have v: "flag_connected c1" "reconnect_count (metrics c1) = 1" "count_list tr1 WsConnect = 1"
    using e by (auto simp: attempt_reconnection_def connect_def create_session_def init_def
        Let_def upto_1_5 always_def accepted_def)
  have p: "\<forall>e \<in> set [always unreachable].
             \<forall>s. flag_connected s \<longrightarrow> flag_connected (lock_wait e s)"
    by (simp add: always_def)
  from one_cycle_when_connected[of "always (accepted 1 7)" "init ''localhost'' 8000 30 5 5"
      r c1 tr1 "[always unreachable]"] e v p
  show ?thesis by (simp add: always_def)
qed

text \<open>
  Two calls at the guard, an attempt budget of one, the endpoint unreachable: the first
  cycle gives up, the second call then finds the client neither connected nor connecting
  and runs a cycle of its own. The counter stands at two, after two handshakes.
\<close>

theorem second_cycle_counterexample:
  "reconnect_count (metrics (fst (guarded_invocations (init ''localhost'' 8000 30 1 5)
      [always unreachable, always unreachable]))) = 2
   \<and> count_list (snd (guarded_invocations (init ''localhost'' 8000 30 1 5)
      [always unreachable, always unreachable])) WsConnect = 2"
  by (simp add: attempt_reconnection_def connect_def create_session_def init_def
        Let_def always_def unreachable_def)

subsection \<open>The listener\<close>

lemma arrivals_append: "arrivals (xs @ ys) = arrivals xs @ arrivals ys"
  by (induction xs rule: arrivals.induct) auto

lemma dispatched_append: "dispatched (xs @ ys) = dispatched xs @ dispatched ys"
  by (induction xs rule: dispatched.induct) auto

text \<open>
  One turn of the loop: unless the socket is gone, a frame is counted and stamped
  whatever its type, and its payload is dispatched when it is a text frame that
  decodes. A turn after which the loop goes on has read from a socket.
\<close>

lemma listen_body_metrics:
  assumes "\<forall>x. message_count (metrics (meanwhile s x)) = message_count (metrics x)
       \<and> last_heartbeat (metrics (meanwhile s x)) = last_heartbeat (metrics x)"
  shows "message_count (metrics (turn_client (listen_body c s)))
           = message_count (metrics c) + (if websocket c \<noteq> None \<and> is_frame s then 1 else 0)"
    and "last_heartbeat (metrics (turn_client (listen_body c s)))
           = (if websocket c \<noteq> None \<and> is_frame s then Some (clock s)
              else last_heartbeat (metrics c))"
    and "arrivals (turn_trace (listen_body c s))
           = (if websocket c \<noteq> None \<and> is_frame s then [clock s] else [])"
    and "dispatched (turn_trace (listen_body c s))
           = (if websocket c \<noteq> None
              then (case decoded s of None \<Rightarrow> [] | Some data \<Rightarrow> [data]) else [])"
  using assms
  by (auto simp: listen_body_def turn_client_def turn_trace_def is_frame_def decoded_def Let_def
      split: sum.splits option.splits)

lemma listen_body_continue:
  "listen_body c s = Continue c' t \<Longrightarrow> websocket c \<noteq> None"
  by (auto simp: listen_body_def split: if_splits)

text \<open>A run that is still in the loop has read every step; a run that has left it reads no further step.\<close>

lemma listen_loop_running:
  "listen_loop c steps = (None, c1, tr1) \<Longrightarrow>
     flag_connected c1
     \<and> listen_loop c (steps @ rest)
         = (let (r, c2, tr2) = listen_loop c1 rest in (r, c2, tr1 @ tr2))"
proof (induction steps arbitrary: c tr1)
  case Nil
  then show ?case by (cases rest) (auto split: if_splits)
next
  case (Cons s ss)
  then have f: "flag_connected c" by (auto split: if_splits)
  show ?case
  proof (cases "listen_body c s")
    case (Exit reason c' t)
    then show ?thesis using Cons.prems f by simp
  next
    case (Continue c' t)
    obtain r2 c2 tr2 where l: "listen_loop c' ss = (r2, c2, tr2)"
      by (cases "listen_loop c' ss") auto
    have eq: "r2 = None" "c2 = c1" "tr1 = t @ tr2"
      using Cons.prems f Continue l by auto
    from Cons.IH[of c' tr2] l eq f Continue show ?thesis
      by (auto split: prod.splits)
  qed
qed

lemma listen_loop_exited:
  "listen_loop c steps = (Some reason, c1, tr1) \<Longrightarrow>
     listen_loop c (steps @ rest) = (Some reason, c1, tr1)"
proof (induction steps arbitrary: c tr1)
  case Nil
  then show ?case by (cases rest) (auto split: if_splits)
next
  case (Cons s ss)
  show ?case
  proof (cases "flag_connected c")
    case False
    then show ?thesis using Cons.prems by auto
  next
    case True
    show ?thesis
    proof (cases "listen_body c s")
      case (Exit reason' c' t)
      then show ?thesis using Cons.prems True by simp
    next
      case (Continue c' t)
      obtain r2 c2 tr2 where l: "listen_loop c' ss = (r2, c2, tr2)"
        by (cases "listen_loop c' ss") auto
      have eq: "r2 = Some reason" "c2 = c1" "tr1 = t @ tr2"
        using Cons.prems True Continue l by auto
      from Cons.IH[of c' tr2] l eq True Continue show ?thesis by simp
    qed
  qed
qed

lemma listen_loop_frames:
  assumes "\<forall>s \<in> set steps. \<forall>x.
       message_count (metrics (meanwhile s x)) = message_count (metrics x)
       \<and> last_heartbeat (metrics (meanwhile s x)) = last_heartbeat (metrics x)"
    and "listen_loop c steps = (None, c1, tr1)"
  shows "message_count (metrics c1)
           = message_count (metrics c) + int (length (filter is_frame steps))
       \<and> arrivals tr1 = map clock (filter is_frame steps)
       \<and> dispatched tr1 = List.map_filter decoded steps
       \<and> last_heartbeat (metrics c1)
           = (if filter is_frame steps = [] then last_heartbeat (metrics c)
              else Some (clock (last (filter is_frame steps))))"
  using assms
proof (induction steps arbitrary: c tr1)
  case Nil
  then show ?case by (auto simp: List.map_filter_simps split: if_splits)
next
  case (Cons s ss)
  have m: "\<forall>x. message_count (metrics (meanwhile s x)) = message_count (metrics x)
       \<and> last_heartbeat (metrics (meanwhile s x)) = last_heartbeat (metrics x)"
    using Cons.prems(1) by simp
  have f: "flag_connected c" using Cons.prems(2) by (auto split: if_splits)
  show ?case
  proof (cases "listen_body c s")
    case (Exit reason c' t)
    then show ?thesis using Cons.prems(2) f by simp
  next
    case (Continue c' t)
    obtain r2 c2 tr2 where l: "listen_loop c' ss = (r2, c2, tr2)"
      by (cases "listen_loop c' ss") auto
    have eq: "r2 = None" "c2 = c1" "tr1 = t @ tr2"
      using Cons.prems(2) f Continue l by auto
    have w: "websocket c \<noteq> None" using listen_body_continue[OF Continue] .
    note b = listen_body_metrics(1-4)[OF m, of c, unfolded Continue turn_client_def turn_trace_def,
        simplified]
    have ih: "message_count (metrics c1)
           = message_count (metrics c') + int (length (filter is_frame ss))
       \<and> arrivals tr2 = map clock (filter is_frame ss)
       \<and> dispatched tr2 = List.map_filter decoded ss
       \<and> last_heartbeat (metrics c1)
           = (if filter is_frame ss = [] then last_heartbeat (metrics c')
              else Some (clock (last (filter is_frame ss))))"
      using Cons.IH[of c' tr2] Cons.prems(1) l eq by simp
    show ?thesis using ih b w eq
      by (auto simp: arrivals_append dispatched_append List.map_filter_simps
          split: option.splits)
  qed
qed

text \<open>
  C2, as the code has it. While the listener is in its loop it has read every frame
  that \<^verbatim>\<open>receive()\<close> gave: the message counter has gone up by the number of these
  frames, whatever their types and whether or not they decode, the heartbeat stamp is
  the arrival time of the last of them, and the payloads dispatched are those of the
  text frames that decode, in their order, so not more than the frames counted. The
  step on which the loop is left counts and stamps its frame in the same way, and no
  later step is read. A listener that finds the status flag down at its start reads
  nothing.
\<close>

theorem message_count_counts_frames:
  assumes "\<forall>s \<in> set steps. \<forall>x.
       message_count (metrics (meanwhile s x)) = message_count (metrics x)
       \<and> last_heartbeat (metrics (meanwhile s x)) = last_heartbeat (metrics x)"
    and "listen c steps = (None, c1, tr1)"
  shows "message_count (metrics c1)
           = message_count (metrics c) + int (length (filter is_frame steps))
       \<and> arrivals tr1 = map clock (filter is_frame steps)
       \<and> dispatched tr1 = List.map_filter decoded steps
       \<and> length (dispatched tr1) \<le> length (filter is_frame steps)
       \<and> last_heartbeat (metrics c1)
           = (if filter is_frame steps = [] then last_heartbeat (metrics c)
              else Some (clock (last (filter is_frame steps))))
       \<and> (\<forall>s r c2 tr2.
            (\<forall>x. message_count (metrics (meanwhile s x)) = message_count (metrics x)
                 \<and> last_heartbeat (metrics (meanwhile s x)) = last_heartbeat (metrics x))
            \<and> listen c (steps @ [s]) = (r, c2, tr2)
            \<longrightarrow> message_count (metrics c2)
                  = message_count (metrics c1)
                    + (if websocket c1 \<noteq> None \<and> is_frame s then 1 else 0)
                \<and> last_heartbeat (metrics c2)
                  = (if websocket c1 \<noteq> None \<and> is_frame s then Some (clock s)
                     else last_heartbeat (metrics c1))
                \<and> arrivals tr2
                  = arrivals tr1 @ (if websocket c1 \<noteq> None \<and> is_frame s then [clock s] else [])
                \<and> dispatched tr2
                  = dispatched tr1
                    @ (if websocket c1 \<noteq> None
                       then (case decoded s of None \<Rightarrow> [] | Some data \<Rightarrow> [data]) else [])
                \<and> (r \<noteq> None \<longrightarrow> (\<forall>rest. listen c (steps @ s # rest) = (r, c2, tr2))))
       \<and> (\<forall>c0 ss. \<not> flag_connected c0 \<longrightarrow> listen c0 ss = (Some StatusCleared, c0, []))"
proof -
  have idle: "listen c0 ss = (Some StatusCleared, c0, [])" if "\<not> flag_connected c0" for c0 ss
    using that by (cases ss) (simp_all add: listen_def)
  have l: "listen_loop c steps = (None, c1, tr1)"
    using assms(2) by (auto simp: listen_def split: prod.splits if_splits)
  note a = listen_loop_frames[OF assms(1) l]
  have k: "length (dispatched tr1) \<le> length (filter is_frame steps)"
  proof -
    have "length (List.map_filter decoded steps) \<le> length (filter is_frame steps)"
      by (induction steps)
        (auto simp: List.map_filter_simps decoded_def is_frame_def split: option.splits sum.splits)
    then show ?thesis using a by simp
  qed
  have b: "message_count (metrics c2)
                  = message_count (metrics c1)
                    + (if websocket c1 \<noteq> None \<and> is_frame s then 1 else 0)
                \<and> last_heartbeat (metrics c2)
                  = (if websocket c1 \<noteq> None \<and> is_frame s then Some (clock s)
                     else last_heartbeat (metrics c1))
                \<and> arrivals tr2
                  = arrivals tr1 @ (if websocket c1 \<noteq> None \<and> is_frame s then [clock s] else [])
                \<and> dispatched tr2
                  = dispatched tr1
                    @ (if websocket c1 \<noteq> None
                       then (case decoded s of None \<Rightarrow> [] | Some data \<Rightarrow> [data]) else [])
                \<and> (r \<noteq> None \<longrightarrow> (\<forall>rest. listen c (steps @ s # rest) = (r, c2, tr2)))"
    if m: "\<forall>x. message_count (metrics (meanwhile s x)) = message_count (metrics x)
                 \<and> last_heartbeat (metrics (meanwhile s x)) = last_heartbeat (metrics x)"
      and e: "listen c (steps @ [s]) = (r, c2, tr2)" for s r c2 tr2
  proof -
    note run = listen_loop_running[OF l, of "[s]"]
    obtain r3 c3 tr3 where l3: "listen_loop c (steps @ [s]) = (r3, c3, tr3)"
      by (cases "listen_loop c (steps @ [s])") auto
    note bm = listen_body_metrics(1-4)[OF m, of c1]
    have one: "message_count (metrics c3)
                  = message_count (metrics c1)
                    + (if websocket c1 \<noteq> None \<and> is_frame s then 1 else 0)
                \<and> last_heartbeat (metrics c3)
                  = (if websocket c1 \<noteq> None \<and> is_frame s then Some (clock s)
                     else last_heartbeat (metrics c1))
                \<and> arrivals tr3
                  = arrivals tr1 @ (if websocket c1 \<noteq> None \<and> is_frame s then [clock s] else [])
                \<and> dispatched tr3
                  = dispatched tr1
                    @ (if websocket c1 \<noteq> None
                       then (case decoded s of None \<Rightarrow> [] | Some data \<Rightarrow> [data]) else [])"
      using run l3 bm
      by (cases "listen_body c1 s")
        (auto simp: turn_client_def turn_trace_def arrivals_append dispatched_append
          split: if_splits)
    have fin: "r = r3" "metrics c2 = metrics c3" "arrivals tr2 = arrivals tr3"
      "dispatched tr2 = dispatched tr3"
      using e l3 by (auto simp: listen_def arrivals_append dispatched_append split: if_splits)
    have rest: "listen c (steps @ s # rest) = (r, c2, tr2)" if nn: "r \<noteq> None" for rest
    proof -
      obtain reason where r: "r3 = Some reason" using nn fin by (cases r3) auto
      have "listen_loop c ((steps @ [s]) @ rest) = (Some reason, c3, tr3)"
        using listen_loop_exited[OF l3[unfolded r]] .
      then show ?thesis using e l3 r by (simp add: listen_def)
    qed
    show ?thesis using one fin rest by simp
  qed
  show ?thesis using a k b idle by blast
qed

text \<open>Three frames of three kinds, all counted, one dispatched; then the server closes.\<close>

theorem message_count_counts_frames_witness:
  "\<exists>c1 tr1 r c2 tr2.
     listen online frames3 = (None, c1, tr1)
     \<and> message_count (metrics c1) = 3 \<and> dispatched tr1 = [PyDict []]
     \<and> last_heartbeat (metrics c1) = Some 6
     \<and> listen online (frames3 @ [quiet (Inr \<lparr>msg_type = CLOSED, msg_json = None\<rparr>) 8])
         = (r, c2, tr2)
     \<and> message_count (metrics c2) = 4 \<and> last_heartbeat (metrics c2) = Some 8"
proof -
  define c1 where
    "c1 = online\<lparr>metrics := (metrics online)\<lparr>message_count := 3, last_heartbeat := Some 6\<rparr>\<rparr>"
  define s where "s = quiet (Inr \<lparr>msg_type = CLOSED, msg_json = None\<rparr>) 8"
  have e: "listen online frames3
             = (None, c1, [Received 3, Dispatch (PyDict []), Received 4, Received 6])"
    by (simp add: c1_def listen_def listen_body_def is_connected_def online_eq init_def
        quiet_def frames3_def Let_def)
  obtain r c2 tr2 where e2: "listen online (frames3 @ [s]) = (r, c2, tr2)"
    by (cases "listen online (frames3 @ [s])") auto
  have q: "\<forall>s \<in> set frames3. \<forall>x.
       message_count (metrics (meanwhile s x)) = message_count (metrics x)
       \<and> last_heartbeat (metrics (meanwhile s x)) = last_heartbeat (metrics x)"
    by (simp add: quiet_def frames3_def)
  have w: "websocket c1 \<noteq> None" "is_frame s" "clock s = 8"
    by (simp_all add: c1_def online_eq init_def s_def quiet_def is_frame_def)
  have q2: "\<forall>x. message_count (metrics (meanwhile s x)) = message_count (metrics x)
              \<and> last_heartbeat (metrics (meanwhile s x)) = last_heartbeat (metrics x)"
    by (simp add: s_def quiet_def)
  note t = message_count_counts_frames[OF q e]
  from t q2 e2 have n:
    "message_count (metrics c2)
       = message_count (metrics c1) + (if websocket c1 \<noteq> None \<and> is_frame s then 1 else 0)
     \<and> last_heartbeat (metrics c2)
       = (if websocket c1 \<noteq> None \<and> is_frame s then Some (clock s)
          else last_heartbeat (metrics c1))"
    by blast
  have m: "message_count (metrics c1) = 3" "last_heartbeat (metrics c1) = Some 6"
    by (simp_all add: c1_def)
  have "message_count (metrics c2) = 4" "last_heartbeat (metrics c2) = Some 8"
    using n w m by simp_all
  with e e2 m show ?thesis unfolding s_def by fastforce
qed

text \<open>
  One text frame that does not decode: nothing is dispatched, yet the counter stands at
  one and the heartbeat is stamped.
\<close>

theorem undecoded_frame_counted_counterexample:
  "message_count (metrics (fst (snd
      (listen online [quiet (Inr \<lparr>msg_type = TEXT, msg_json = None\<rparr>) 3])))) = 1
   \<and> last_heartbeat (metrics (fst (snd
      (listen online [quiet (Inr \<lparr>msg_type = TEXT, msg_json = None\<rparr>) 3])))) = Some 3
   \<and> dispatched (snd (snd
      (listen online [quiet (Inr \<lparr>msg_type = TEXT, msg_json = None\<rparr>) 3]))) = []"
  by (simp add: listen_def listen_body_def is_connected_def online_eq init_def quiet_def Let_def)




subsection \<open>send\<close>

lemma transmissions_append: "transmissions (xs @ ys) = transmissions xs @ transmissions ys"
  by (induction xs rule: transmissions.induct) auto

lemma upto_0_1: "[0..1] = [0, 1::int]"
  by (simp add: upto.simps[of 0] upto.simps[of 1])

lemma wait_connecting_quiet:
  "wait_connecting c fs = (r, c', tr) \<Longrightarrow>
     transmissions tr = [] \<and> count_list tr AcquireLock = 0
     \<and> ScheduleReconnection \<notin> set tr"
  by (induction fs arbitrary: c r c' tr) (auto split: if_splits prod.splits)

lemma connect_quiet:
  "connect c env = (r, c', tr) \<Longrightarrow>
     transmissions tr = [] \<and> count_list tr AcquireLock = 0
     \<and> ScheduleReconnection \<notin> set tr"
  using wait_connecting_quiet[of c "polls env" r c' tr]
  by (auto simp: connect_def create_session_def Let_def
      split: if_splits sum.splits option.splits prod.splits)

lemma reconnect_loop_quiet:
  "reconnect_loop c env ns = (r, c', tr) \<Longrightarrow>
     transmissions tr = [] \<and> count_list tr AcquireLock = 0
     \<and> ScheduleReconnection \<notin> set tr"
proof (induction ns arbitrary: c r c' tr)
  case Nil
  then show ?case by simp
next
  case (Cons n ns)
  obtain r1 c1 tr1 where c: "connect c (env n) = (r1, c1, tr1)"
    by (cases "connect c (env n)") auto
  obtain r2 c2 tr2 where l: "reconnect_loop c1 env ns = (r2, c2, tr2)"
    by (cases "reconnect_loop c1 env ns") auto
  from Cons.prems c l connect_quiet[OF c] Cons.IH[OF l] show ?case
    by (auto simp: Let_def transmissions_append split: completion.splits if_splits)
qed

lemma attempt_reconnection_quiet:
  assumes "attempt_reconnection c env = (r, c', tr)"
  shows "transmissions tr = [] \<and> count_list tr AcquireLock = 1
       \<and> ScheduleReconnection \<notin> set tr"
proof (cases "flag_connected (lock_wait env c) \<or> flag_connecting (lock_wait env c)")
  case True
  then show ?thesis using assms by (auto simp: attempt_reconnection_def)
next
  case False
  define c1 where "c1 = (lock_wait env c)\<lparr>metrics := (metrics (lock_wait env c))
       \<lparr>reconnect_count := reconnect_count (metrics (lock_wait env c)) + 1\<rparr>\<rparr>"
  obtain r2 c2 tr2
    where l: "reconnect_loop c1 (attempts env) [1..max_reconnect_attempts c1] = (r2, c2, tr2)"
    by (cases "reconnect_loop c1 (attempts env) [1..max_reconnect_attempts c1]") auto
  have eq: "tr = AcquireLock # tr2"
    using assms False l by (auto simp: attempt_reconnection_def Let_def c1_def[symmetric])
  from reconnect_loop_quiet[OF l] eq show ?thesis by simp
qed


text \<open>
  The retry loop takes the guard at most once a turn and writes at most once a turn. A
  write that is accepted ends the loop with \<^verbatim>\<open>True\<close>, so the trace holds one accepted
  write, its last call, when the result is \<^verbatim>\<open>True\<close>, and none otherwise.
\<close>

lemma retry_loop_trace:
  "retry_loop c data env ns = (r, c', tr) \<Longrightarrow>
     count_list tr AcquireLock \<le> length ns \<and> length (transmissions tr) \<le> length ns
     \<and> length (filter (\<lambda>x. snd (snd x) = None) (transmissions tr))
         = (if r = Return True then 1 else 0)
     \<and> (r = Return True \<longrightarrow> tr \<noteq> [] \<and> (\<exists>n. last tr = SendJson n data None))
     \<and> ScheduleReconnection \<notin> set tr"
proof (induction ns arbitrary: c r c' tr)
  case Nil
  then show ?case by auto
next
  case (Cons n ns)
  obtain r1 c1 tr1 where a: "attempt_reconnection c (reconnect (env n)) = (r1, c1, tr1)"
    by (cases "attempt_reconnection c (reconnect (env n))") auto
  obtain out tr2 where s: "send_json c1 data (resend (env n)) = (out, tr2)"
    by (cases "send_json c1 data (resend (env n))") auto
  obtain r3 c3 tr3 where l: "retry_loop c1 data env ns = (r3, c3, tr3)"
    by (cases "retry_loop c1 data env ns") auto
  note q = attempt_reconnection_quiet[OF a]
  note ih = Cons.IH[OF l]
  show ?case
  proof (cases r1)
    case Blocked
    then show ?thesis using Cons.prems a q by auto
  next
    case (Raise e)
    then show ?thesis using Cons.prems a l q ih
      by (auto simp: transmissions_append split: if_splits)
  next
    case (Return u)
    show ?thesis
    proof (cases "truthy (is_connected c1)")
      case False
      then show ?thesis using Cons.prems a l q ih Return
        by (auto simp: transmissions_append)
    next
      case True
      obtain ws1 where w1: "websocket c1 = Some ws1"
        using True by (auto simp: is_connected_def split: option.splits if_splits)
      have s2: "out = resend (env n)" "tr2 = [SendJson (ws_id ws1) data (resend (env n))]"
        using s w1 by (auto simp: send_json_def)
      show ?thesis
      proof (cases "resend (env n)")
        case None
        then show ?thesis using Cons.prems a s s2 q Return True
          by (auto simp: transmissions_append)
      next
        case (Some e)
        show ?thesis
        proof (cases "e = CancelledError")
          case True
          then show ?thesis using Cons.prems a s s2 q Return \<open>truthy (is_connected c1)\<close> Some
            by (auto simp: transmissions_append)
        next
          case False
          have eq: "r = r3" "c' = c3" "tr = tr1 @ Sleep 0.5 # tr2 @ tr3"
            using Cons.prems a s l Return \<open>truthy (is_connected c1)\<close> Some False s2
            by simp_all
          show ?thesis using eq s2 q ih Some
            by (auto simp: transmissions_append)
        qed
      qed
    qed
  qed
qed

text \<open>One turn of the retry loop after which the coordinator has returned.\<close>

lemma retry_turn:
  assumes "attempt_reconnection c (reconnect (env n)) = (Return (), c1, tr1)"
  shows "retry_loop c data env (n # ns)
           = (if truthy (is_connected c1) \<and> resend (env n) = None
              then (Return True, c1, tr1 @ retransmit c1 data (resend (env n)))
              else if truthy (is_connected c1) \<and> resend (env n) = Some CancelledError
              then (Raise (Propagated CancelledError), c1,
                    tr1 @ retransmit c1 data (resend (env n)))
              else (let (r, c2, tr2) = retry_loop c1 data env ns
                    in (r, c2, tr1 @ retransmit c1 data (resend (env n)) @ tr2)))"
  using assms
  by (auto simp: retransmit_def send_json_def is_connected_def
      split: option.splits if_splits prod.splits)

text \<open>
  C6. A payload that is no mapping (or any payload that is no dict), and any payload
  while the connectivity predicate is false, makes \<^verbatim>\<open>send\<close> return
  \<^verbatim>\<open>False\<close>: it does not raise, it makes no call at all (no write, no guard taken,
  no handshake), and it leaves the client as it was.
\<close>

theorem send_fast_fail:
  assumes "\<not> is_mapping data \<or> \<not> isinstance_dict data \<or> \<not> truthy (is_connected c)"
  shows "send c data env = (Return False, c, [])"
  using assms by (cases data) (auto simp: send_def)


theorem send_fast_fail_witness:
  "send online (PyStr ''ping'') (reset_then None) = (Return False, online, [])
   \<and> send online (PyMappingProxy []) (reset_then None) = (Return False, online, [])
   \<and> send (init ''localhost'' 8000 30 5 5) (PyDict []) (reset_then None)
       = (Return False, init ''localhost'' 8000 30 5 5, [])"
  using send_fast_fail[of "PyStr ''ping''" online "reset_then None"]
    send_fast_fail[of "PyMappingProxy []" online "reset_then None"]
    send_fast_fail[of "PyDict []" "init ''localhost'' 8000 30 5 5" "reset_then None"]
  by (simp add: is_connected_def init_def)

text \<open>
  C7, as the code has it. After a connection reset on the first write, \<^verbatim>\<open>send\<close>
  takes the guard of the coordinator at most twice and writes the payload again at most
  twice. It returns \<^verbatim>\<open>True\<close> exactly when a retransmission was accepted: that write
  is then the last call of the trace and the only accepted one. When the first call of
  the coordinator leaves the client connected and the write that follows is accepted,
  there is exactly one retransmission, made on the socket then held, half a second after
  the coordinator returned. When no turn delivers, the second turn is the last and
  \<^verbatim>\<open>send\<close> returns \<^verbatim>\<open>False\<close>: each turn has written once if the client was
  connected after the coordinator, and not at all if it was not.
\<close>

theorem send_retry_after_reset:
  assumes "isinstance_dict data" and "truthy (is_connected c)"
    and "first_send env = Some ConnectionResetError"
    and "send c data env = (r, c', tr)"
  shows "count_list tr AcquireLock \<le> 2 \<and> length (transmissions tr) \<le> 3
       \<and> length (filter (\<lambda>x. snd (snd x) = None) (transmissions tr))
           = (if r = Return True then 1 else 0)
       \<and> (r = Return True) = (\<exists>n. last tr = SendJson n data None)
       \<and> (\<forall>c1 tr1.
             attempt_reconnection (during_send env c) (reconnect (retries env 0))
               = (Return (), c1, tr1)
           \<longrightarrow>
             (truthy (is_connected c1) \<and> resend (retries env 0) = None
              \<longrightarrow> r = Return True \<and> c' = c1 \<and> length (transmissions tr) = 2
                  \<and> (\<exists>ws ws1. websocket c = Some ws \<and> websocket c1 = Some ws1
                        \<and> tr = SendJson (ws_id ws) data (Some ConnectionResetError) # tr1
                                 @ [Sleep 0.5, SendJson (ws_id ws1) data None]))
             \<and> (\<forall>c2 tr2.
                   \<not> (truthy (is_connected c1) \<and> resend (retries env 0) = None)
                   \<and> \<not> (truthy (is_connected c1)
                          \<and> resend (retries env 0) = Some CancelledError)
                   \<and> attempt_reconnection c1 (reconnect (retries env 1)) = (Return (), c2, tr2)
                   \<and> \<not> (truthy (is_connected c2)
                          \<and> resend (retries env 1) = Some CancelledError)
                 \<longrightarrow>
                   r = Return (truthy (is_connected c2) \<and> resend (retries env 1) = None)
                   \<and> c' = c2
                   \<and> (\<exists>ws. websocket c = Some ws
                         \<and> tr = SendJson (ws_id ws) data (Some ConnectionResetError) # tr1
                                  @ retransmit c1 data (resend (retries env 0)) @ tr2
                                  @ retransmit c2 data (resend (retries env 1)))))"
proof -
  obtain ws where ws: "websocket c = Some ws"
    using assms(2) by (auto simp: is_connected_def split: option.splits if_splits)
  define first where "first = SendJson (ws_id ws) data (Some ConnectionResetError)"
  obtain r2 c2 tr2
    where l: "retry_loop (during_send env c) data (retries env) [0, 1] = (r2, c2, tr2)"
    by (cases "retry_loop (during_send env c) data (retries env) [0, 1]") auto
  have eq: "r = r2" "c' = c2" "tr = first # tr2"
    using assms ws l
    by (auto simp: send_def send_json_def handle_reconnect_and_retry_def upto_0_1 Let_def
        first_def simp del: retry_loop.simps)
  note t = retry_loop_trace[OF l]
  have b: "count_list tr AcquireLock \<le> 2 \<and> length (transmissions tr) \<le> 3
       \<and> length (filter (\<lambda>x. snd (snd x) = None) (transmissions tr))
           = (if r = Return True then 1 else 0)"
    using t eq by (auto simp: first_def)
  have n: "\<forall>m. SendJson m data None \<notin> set tr" if "r \<noteq> Return True"
  proof -
    have "filter (\<lambda>x. snd (snd x) = None) (transmissions tr) = []"
      using b that by simp
    then have z: "\<forall>x \<in> set (transmissions tr). snd (snd x) \<noteq> None"
      by (simp add: filter_empty_conv)
    have "(m, d, out) \<in> set (transmissions xs)" if "SendJson m d out \<in> set xs" for m d out xs
      using that by (induction xs rule: transmissions.induct) auto
    then show ?thesis using z by fastforce
  qed
  have g: "(r = Return True) = (\<exists>n. last tr = SendJson n data None)"
  proof
    assume "r = Return True"
    then show "\<exists>n. last tr = SendJson n data None" using t eq by auto
  next
    assume x: "\<exists>n. last tr = SendJson n data None"
    have "tr \<noteq> []" using eq by simp
    then have "last tr \<in> set tr" by simp
    with x n show "r = Return True" by metis
  qed
  have d: "(truthy (is_connected c1) \<and> resend (retries env 0) = None
              \<longrightarrow> r = Return True \<and> c' = c1 \<and> length (transmissions tr) = 2
                  \<and> (\<exists>ws ws1. websocket c = Some ws \<and> websocket c1 = Some ws1
                        \<and> tr = SendJson (ws_id ws) data (Some ConnectionResetError) # tr1
                                 @ [Sleep 0.5, SendJson (ws_id ws1) data None]))
             \<and> (\<forall>c2 tr2.
                   \<not> (truthy (is_connected c1) \<and> resend (retries env 0) = None)
                   \<and> \<not> (truthy (is_connected c1)
                          \<and> resend (retries env 0) = Some CancelledError)
                   \<and> attempt_reconnection c1 (reconnect (retries env 1)) = (Return (), c2, tr2)
                   \<and> \<not> (truthy (is_connected c2)
                          \<and> resend (retries env 1) = Some CancelledError)
                 \<longrightarrow>
                   r = Return (truthy (is_connected c2) \<and> resend (retries env 1) = None)
                   \<and> c' = c2
                   \<and> (\<exists>ws. websocket c = Some ws
                         \<and> tr = SendJson (ws_id ws) data (Some ConnectionResetError) # tr1
                                  @ retransmit c1 data (resend (retries env 0)) @ tr2
                                  @ retransmit c2 data (resend (retries env 1))))"
    if h: "attempt_reconnection (during_send env c) (reconnect (retries env 0))
               = (Return (), c1, tr1)" for c1 tr1
  proof -
    note t0 = retry_turn[of "during_send env c" "retries env" 0 c1 tr1 data "[1]", OF h]
    have q: "transmissions tr1 = []" using attempt_reconnection_quiet[OF h] by simp
    have first_case: "r = Return True \<and> c' = c1 \<and> length (transmissions tr) = 2
                  \<and> (\<exists>ws ws1. websocket c = Some ws \<and> websocket c1 = Some ws1
                        \<and> tr = SendJson (ws_id ws) data (Some ConnectionResetError) # tr1
                                 @ [Sleep 0.5, SendJson (ws_id ws1) data None])"
      if dl: "truthy (is_connected c1)" "resend (retries env 0) = None"
    proof -
      obtain ws1 where w1: "websocket c1 = Some ws1"
        using dl(1) by (auto simp: is_connected_def split: option.splits if_splits)
      have "(r2, c2, tr2) = (Return True, c1, tr1 @ [Sleep 0.5, SendJson (ws_id ws1) data None])"
        using t0 l dl w1 by (simp add: retransmit_def send_json_def del: retry_loop.simps)
      then show ?thesis using eq ws w1 q by (simp add: first_def transmissions_append)
    qed
    have second_case: "r = Return (truthy (is_connected c3) \<and> resend (retries env 1) = None)
                   \<and> c' = c3
                   \<and> (\<exists>ws. websocket c = Some ws
                         \<and> tr = SendJson (ws_id ws) data (Some ConnectionResetError) # tr1
                                  @ retransmit c1 data (resend (retries env 0)) @ tr3
                                  @ retransmit c3 data (resend (retries env 1)))"
      if nd: "\<not> (truthy (is_connected c1) \<and> resend (retries env 0) = None)"
        "\<not> (truthy (is_connected c1) \<and> resend (retries env 0) = Some CancelledError)"
        "attempt_reconnection c1 (reconnect (retries env 1)) = (Return (), c3, tr3)"
        "\<not> (truthy (is_connected c3) \<and> resend (retries env 1) = Some CancelledError)"
      for c3 tr3
    proof -
      note t1 = retry_turn[of c1 "retries env" 1 c3 tr3 data "[]", OF nd(3)]
      have "(r2, c2, tr2)
              = (Return (truthy (is_connected c3) \<and> resend (retries env 1) = None), c3,
                 tr1 @ retransmit c1 data (resend (retries env 0)) @ tr3
                   @ retransmit c3 data (resend (retries env 1)))"
        using t0 t1 l nd(1,2,4) by (auto simp del: retry_loop.simps(2))
      then show ?thesis using eq ws by (simp add: first_def)
    qed
    show ?thesis using first_case second_case by blast
  qed
  show ?thesis using b g d by blast
qed

theorem send_retry_after_reset_witness:
  "\<exists>c' tr. send online (PyDict []) (reset_then None) = (Return True, c', tr)
     \<and> transmissions tr
         = [(1, PyDict [], Some ConnectionResetError), (2, PyDict [], None)]
     \<and> last tr = SendJson 2 (PyDict []) None
     \<and> count_list tr AcquireLock = 1"
proof -
  obtain r c' tr where e: "send online (PyDict []) (reset_then None) = (r, c', tr)"
    by (cases "send online (PyDict []) (reset_then None)") auto
  have v: "transmissions tr = [(1, PyDict [], Some ConnectionResetError), (2, PyDict [], None)]"
      "last tr = SendJson 2 (PyDict []) None" "count_list tr AcquireLock = 1"
    using e by (auto simp: send_def send_json_def handle_reconnect_and_retry_def upto_0_1
        attempt_reconnection_def connect_def create_session_def is_connected_def
        online_eq init_def reset_then_def always_def accepted_def upto_1_5 Let_def)
  have h: "isinstance_dict (PyDict [])" "truthy (is_connected online)"
    "first_send (reset_then None) = Some ConnectionResetError"
    by (simp_all add: is_connected_def online_eq init_def reset_then_def)
  from send_retry_after_reset[OF h e] v have "r = Return True" by blast
  with v e show ?thesis by blast
qed

text \<open>
  The reset is followed by a cycle that reconnects at its first attempt, but the server
  does not take the payload: the write on the new socket fails, the second turn finds
  the client connected and writes once more, in vain. Two retransmissions, and
  \<^verbatim>\<open>False\<close>.
\<close>

theorem failed_retransmission_counterexample:
  "fst (send online (PyDict []) (reset_then (Some ClientError))) = Return False
   \<and> transmissions (snd (snd (send online (PyDict []) (reset_then (Some ClientError)))))
       = [(1, PyDict [], Some ConnectionResetError), (2, PyDict [], Some ClientError),
          (2, PyDict [], Some ClientError)]
   \<and> truthy (is_connected (fst (snd (send online (PyDict []) (reset_then (Some ClientError))))))
   \<and> reconnect_count (metrics (fst (snd
        (send online (PyDict []) (reset_then (Some ClientError)))))) = 1"
  by (simp add: send_def send_json_def handle_reconnect_and_retry_def upto_0_1
        attempt_reconnection_def connect_def create_session_def is_connected_def
        online_eq init_def reset_then_def always_def accepted_def upto_1_5 Let_def)

subsection \<open>disconnect\<close>

lemma cancel_listener_caught:
  assumes "outcome \<in> {None, Some CancelledError, Some TimeoutError}"
  shows "cancel_listener c outcome
           = (if task_pending c then (None, c\<lparr>task := None\<rparr>, [CancelTask]) else (None, c, []))"
  using assms by (auto simp: cancel_listener_def)

lemma close_websocket_caught:
  assumes "outcome \<noteq> Some CancelledError"
  shows "close_websocket c outcome
           = (if websocket_open c then (None, c\<lparr>websocket := None\<rparr>, [CloseWebsocket])
              else (None, c, []))"
  using assms by (cases outcome; cases "the outcome") (auto simp: close_websocket_def)

lemma close_session_caught:
  assumes "outcome \<noteq> Some CancelledError"
  shows "close_session c outcome False
           = (if session_open c then (None, c\<lparr>session := None\<rparr>, [CloseSession])
              else (None, c, []))"
    and "close_session c outcome True
           = (if session_open c
              then (None, c\<lparr>connector := map_option (\<lambda>k. k\<lparr>conn_closed := True\<rparr>) (connector c),
                             session := None\<rparr>, [CloseSession])
              else (None, c, []))"
  using assms by (cases outcome; cases "the outcome"; auto simp: close_session_def)+

lemma close_connector_caught:
  assumes "outcome \<noteq> Some CancelledError"
  shows "close_connector c outcome
           = (if connector_open c then (None, c\<lparr>connector := None\<rparr>, [CloseConnector])
              else (None, c, []))"
  using assms by (cases outcome; cases "the outcome") (auto simp: close_connector_def)

lemma open_simps:
  "task_pending (c\<lparr>task := None\<rparr>) = False"
  "websocket_open (c\<lparr>websocket := None\<rparr>) = False"
  "session_open (c\<lparr>session := None\<rparr>) = False"
  "connector_open (c\<lparr>connector := None\<rparr>) = False"
  "task_pending (c\<lparr>websocket := w\<rparr>) = task_pending c"
  "task_pending (c\<lparr>session := s\<rparr>) = task_pending c"
  "task_pending (c\<lparr>connector := k\<rparr>) = task_pending c"
  "task_pending (c\<lparr>flag_connected := b\<rparr>) = task_pending c"
  "websocket_open (c\<lparr>task := t\<rparr>) = websocket_open c"
  "websocket_open (c\<lparr>session := s\<rparr>) = websocket_open c"
  "websocket_open (c\<lparr>connector := k\<rparr>) = websocket_open c"
  "websocket_open (c\<lparr>flag_connected := b\<rparr>) = websocket_open c"
  "session_open (c\<lparr>task := t\<rparr>) = session_open c"
  "session_open (c\<lparr>websocket := w\<rparr>) = session_open c"
  "session_open (c\<lparr>connector := k\<rparr>) = session_open c"
  "session_open (c\<lparr>flag_connected := b\<rparr>) = session_open c"
  "connector_open (c\<lparr>task := t\<rparr>) = connector_open c"
  "connector_open (c\<lparr>websocket := w\<rparr>) = connector_open c"
  "connector_open (c\<lparr>session := s\<rparr>) = connector_open c"
  "connector_open (c\<lparr>flag_connected := b\<rparr>) = connector_open c"
  "connector_open (c\<lparr>connector := map_option (\<lambda>k. k\<lparr>conn_closed := True\<rparr>) (connector c)\<rparr>) = False"
  by (auto simp: task_pending_def websocket_open_def session_open_def connector_open_def
      split: option.splits)

lemma disconnect_result:
  assumes "task_wait env \<in> {None, Some CancelledError, Some TimeoutError}"
    and "ws_close env \<noteq> Some CancelledError"
    and "session_close env \<noteq> Some CancelledError"
    and "connector_close env \<noteq> Some CancelledError"
    and "disconnect c env = (r, c', tr)"
  shows "r = Return ()
       \<and> \<not> flag_connected c'
       \<and> \<not> task_pending c' \<and> \<not> websocket_open c' \<and> \<not> session_open c' \<and> \<not> connector_open c'
       \<and> (task_pending c \<longrightarrow> CancelTask \<in> set tr \<and> task c' = None)
       \<and> (websocket_open c \<longrightarrow> CloseWebsocket \<in> set tr \<and> websocket c' = None)
       \<and> (session_open c \<longrightarrow> CloseSession \<in> set tr \<and> session c' = None)
       \<and> (connector_open c \<longrightarrow>
            (CloseConnector \<in> set tr \<and> connector c' = None)
            \<or> (session_open c \<and> session_close_shuts_connector env))"
  using assms(5)
  unfolding disconnect_def Let_def
    cancel_listener_caught[OF assms(1)] close_websocket_caught[OF assms(2)]
    close_connector_caught[OF assms(4)]
  by (cases "session_close_shuts_connector env")
     (auto simp: close_session_caught[OF assms(3)] open_simps split: if_splits)


lemma disconnect_nothing_open:
  assumes "\<not> flag_connected c" "\<not> task_pending c" "\<not> websocket_open c"
    "\<not> session_open c" "\<not> connector_open c"
  shows "disconnect c env = (Return (), c, [])"
proof -
  have e: "c\<lparr>flag_connected := False\<rparr> = c" using assms(1) by (cases c) simp
  show ?thesis unfolding disconnect_def Let_def e using assms
    by (simp add: cancel_listener_def close_websocket_def close_session_def
        close_connector_def)
qed

text \<open>
  C9. The task that \<^verbatim>\<open>disconnect\<close> cancels is the listener, which ends by returning
  on every path, so the bounded wait for it ends normally, by cancellation or by
  timeout; and a \<^verbatim>\<open>close()\<close> that fails raises an \<^verbatim>\<open>Exception\<close>. Whatever of
  these happens at each of the four resources, \<^verbatim>\<open>disconnect\<close> returns, the status
  flag is down, and no owned resource is left open: the task was cancelled and the
  socket, the session and the connector were each closed if they were open (the
  connector by its own \<^verbatim>\<open>close()\<close>, unless closing the session had closed it
  already), whatever the other closes raised. A second \<^verbatim>\<open>disconnect\<close> makes no call
  and changes nothing.
\<close>

theorem disconnect_closes_all:
  assumes "task_wait env \<in> {None, Some CancelledError, Some TimeoutError}"
    and "ws_close env \<noteq> Some CancelledError"
    and "session_close env \<noteq> Some CancelledError"
    and "connector_close env \<noteq> Some CancelledError"
    and "disconnect c env = (r, c', tr)"
  shows "r = Return ()
       \<and> \<not> flag_connected c'
       \<and> \<not> task_pending c' \<and> \<not> websocket_open c' \<and> \<not> session_open c' \<and> \<not> connector_open c'
       \<and> (task_pending c \<longrightarrow> CancelTask \<in> set tr \<and> task c' = None)
       \<and> (websocket_open c \<longrightarrow> CloseWebsocket \<in> set tr \<and> websocket c' = None)
       \<and> (session_open c \<longrightarrow> CloseSession \<in> set tr \<and> session c' = None)
       \<and> (connector_open c \<longrightarrow>
            (CloseConnector \<in> set tr \<and> connector c' = None)
            \<or> (session_open c \<and> session_close_shuts_connector env))
       \<and> disconnect c' env2 = (Return (), c', [])"
proof -
  note d = disconnect_result[OF assms]
  then have "disconnect c' env2 = (Return (), c', [])"
    by (simp add: disconnect_nothing_open)
  with d show ?thesis by simp
qed

lemma online_open:
  "task_pending online" "websocket_open online" "session_open online" "connector_open online"
  by (simp_all add: online_eq init_def task_pending_def websocket_open_def session_open_def
      connector_open_def)

theorem disconnect_closes_all_witness:
  "\<exists>c'. disconnect online (faults (Some TimeoutError) (Some ClientError))
           = (Return (), c', [CancelTask, CloseWebsocket, CloseSession, CloseConnector])
     \<and> task c' = None \<and> websocket c' = None \<and> session c' = None \<and> connector c' = None
     \<and> disconnect c' (faults None None) = (Return (), c', [])"
proof -
  obtain c' where e: "disconnect online (faults (Some TimeoutError) (Some ClientError))
           = (Return (), c', [CancelTask, CloseWebsocket, CloseSession, CloseConnector])"
    by (simp add: disconnect_def cancel_listener_def close_websocket_def close_session_def
        close_connector_def online_open open_simps faults_def Let_def)
  have h: "task_wait (faults (Some TimeoutError) (Some ClientError))
             \<in> {None, Some CancelledError, Some TimeoutError}"
    "ws_close (faults (Some TimeoutError) (Some ClientError)) \<noteq> Some CancelledError"
    "session_close (faults (Some TimeoutError) (Some ClientError)) \<noteq> Some CancelledError"
    "connector_close (faults (Some TimeoutError) (Some ClientError)) \<noteq> Some CancelledError"
    by (simp_all add: faults_def)
  from disconnect_closes_all[OF h e, of "faults None None"] online_open e
  show ?thesis by (simp add: faults_def)
qed

subsection \<open>The trigger of reconnection\<close>










end
